theory Spec2Isabelle
  imports Main
begin

section \<open>Values of the plugin framework, the SDK and the Go library\<close>

text \<open>
  The framework's \<^verbatim>\<open>types.String\<close> is null, unknown or a known Go string.
  \<^verbatim>\<open>ValueString\<close> reads a null or unknown value as the empty string,
  \<^verbatim>\<open>ValueStringPointer\<close> reads null as a nil pointer and unknown as a pointer to the
  empty string, and \<^verbatim>\<open>StringPointerValue\<close> turns a nil pointer into null. A Go
  pointer that may be nil is an \<open>option\<close>.
\<close>

datatype tf_string = StringNull | StringUnknown | StringValue string

fun ValueString :: "tf_string \<Rightarrow> string" where
  "ValueString StringNull = ''''"
| "ValueString StringUnknown = ''''"
| "ValueString (StringValue s) = s"

fun ValueStringPointer :: "tf_string \<Rightarrow> string option" where
  "ValueStringPointer StringNull = None"
| "ValueStringPointer StringUnknown = Some ''''"
| "ValueStringPointer (StringValue s) = Some s"

fun StringPointerValue :: "string option \<Rightarrow> tf_string" where
  "StringPointerValue None = StringNull"
| "StringPointerValue (Some s) = StringValue s"

text \<open>
  A value of Go's \<^verbatim>\<open>interface{}\<close> as the JSON decoder produces it in the
  \<^verbatim>\<open>Options\<close> map: nil, a string, a boolean or a number (the number's value plays
  no role here; it is kept as an integer).
\<close>

datatype interface = INil | IString string | IBool bool | INumber int

text \<open>
  Go errors. \<^verbatim>\<open>fmt.Errorf\<close> with a constant format yields a plain error carrying
  its text; the SDK reports an HTTP failure as a \<^verbatim>\<open>*oapierror.GenericOpenAPIError\<close>
  with a status code (kept here with the text its \<^verbatim>\<open>Error\<close> method yields); any
  other error of the transport is \<open>OtherError\<close>. \<open>Error\<close> is the text that the
  \<^verbatim>\<open>%v\<close> verb prints.
\<close>

datatype go_error =
    Errorf string
  | GenericOpenAPIError int string
  | OtherError string

fun Error :: "go_error \<Rightarrow> string" where
  "Error (Errorf msg) = msg"
| "Error (GenericOpenAPIError code msg) = msg"
| "Error (OtherError msg) = msg"

definition StatusNotFound :: int where
  "StatusNotFound = 404"

text \<open>
  \<^verbatim>\<open>strings.Join\<close> and \<^verbatim>\<open>strings.Split\<close>. Go strings are byte sequences, as
  \<open>string\<close> is. \<^verbatim>\<open>Split\<close> cuts at each occurrence of the separator, found from
  the left and not overlapping; the text after the last occurrence is the last part. The
  separator used here is never empty; for the empty separator (where Go splits after each
  UTF-8 sequence) \<open>split_from\<close> does not split at all.
\<close>

fun strings_Join :: "string list \<Rightarrow> string \<Rightarrow> string" where
  "strings_Join [] sep = ''''"
| "strings_Join [x] sep = x"
| "strings_Join (x # y # ys) sep = x @ sep @ strings_Join (y # ys) sep"

function split_from :: "string \<Rightarrow> string \<Rightarrow> string \<Rightarrow> string list" where
  "split_from sep cur [] = [cur]"
| "split_from sep cur (c # cs) =
     (if sep \<noteq> [] \<and> take (length sep) (c # cs) = sep
      then cur # split_from sep [] (drop (length sep) (c # cs))
      else split_from sep (cur @ [c]) cs)"
  by pat_completeness auto
termination
  by (relation "measure (\<lambda>(sep, cur, s). length s)") auto

definition strings_Split :: "string \<Rightarrow> string \<Rightarrow> string list" where
  "strings_Split s sep = split_from sep [] s"

fun strings_Contains :: "string \<Rightarrow> string \<Rightarrow> bool" where
  "strings_Contains [] substr = (substr = [])"
| "strings_Contains (c # cs) substr =
     (take (length substr) (c # cs) = substr \<or> strings_Contains cs substr)"

text \<open>
  Modelled from the spec: \<^verbatim>\<open>core.Separator\<close>, a constant of the provider's
  \<^verbatim>\<open>core\<close> package. The schema describes the id as
  \<^verbatim>\<open>project_id,instance_id,database_id\<close> and the spec's scenario builds
  \<^verbatim>\<open>p,i,db-1\<close>: the separator is a comma.
\<close>

definition Separator :: string where
  "Separator = '',''"

section \<open>Diagnostics\<close>

text \<open>
  The framework's diagnostics collector: a list of errors and warnings, each with a
  summary and a detail. \<^verbatim>\<open>Append\<close> skips a diagnostic the collector already
  contains; \<^verbatim>\<open>HasError\<close> holds when some diagnostic is an error.
\<close>

datatype Diagnostic = ErrorDiagnostic string string | WarningDiagnostic string string

type_synonym Diagnostics = "Diagnostic list"

fun is_error :: "Diagnostic \<Rightarrow> bool" where
  "is_error (ErrorDiagnostic summary detail) = True"
| "is_error (WarningDiagnostic summary detail) = False"

definition HasError :: "Diagnostics \<Rightarrow> bool" where
  "HasError diags = list_ex is_error diags"

fun Diagnostics_Append :: "Diagnostics \<Rightarrow> Diagnostics \<Rightarrow> Diagnostics" where
  "Diagnostics_Append diags [] = diags"
| "Diagnostics_Append diags (d # ds) =
     Diagnostics_Append (if d \<in> set diags then diags else diags @ [d]) ds"

definition AddError :: "Diagnostics \<Rightarrow> string \<Rightarrow> string \<Rightarrow> Diagnostics" where
  "AddError diags summary detail = Diagnostics_Append diags [ErrorDiagnostic summary detail]"

definition AddWarning :: "Diagnostics \<Rightarrow> string \<Rightarrow> string \<Rightarrow> Diagnostics" where
  "AddWarning diags summary detail = Diagnostics_Append diags [WarningDiagnostic summary detail]"

text \<open>
  Modelled from the spec: \<^verbatim>\<open>core.LogAndAddError\<close> and
  \<^verbatim>\<open>core.LogAndAddWarning\<close>, helpers of the provider's \<^verbatim>\<open>core\<close> package. The
  spec has every error surfaced to the driver's diagnostics collector with a short title
  and a detailed message; the log line they also write is not modelled.
\<close>

definition LogAndAddError :: "Diagnostics \<Rightarrow> string \<Rightarrow> string \<Rightarrow> Diagnostics" where
  "LogAndAddError diags summary detail = AddError diags summary detail"

definition LogAndAddWarning :: "Diagnostics \<Rightarrow> string \<Rightarrow> string \<Rightarrow> Diagnostics" where
  "LogAndAddWarning diags summary detail = AddWarning diags summary detail"

section \<open>The data model\<close>

text \<open>The \<^verbatim>\<open>Model\<close> struct of the resource.\<close>

record Model =
  model_Id :: tf_string
  model_DatabaseId :: tf_string
  model_InstanceId :: tf_string
  model_ProjectId :: tf_string
  model_Name :: tf_string
  model_Owner :: tf_string

text \<open>
  The SDK's \<^verbatim>\<open>InstanceDatabase\<close> (every field a pointer), the response of the list
  call, the response of the create call and the create payload.
\<close>

record InstanceDatabase =
  db_Id :: "string option"
  db_Name :: "string option"
  db_Options :: "(string \<rightharpoonup> interface) option"

record InstanceListDatabasesResponse =
  list_Databases :: "InstanceDatabase list option"

record InstanceCreateDatabaseResponse =
  create_Id :: "string option"

record CreateDatabasePayload =
  payload_Name :: "string option"
  payload_Options :: "(string \<rightharpoonup> string) option"

text \<open>
  The remote client: what each call's \<^verbatim>\<open>Execute\<close> returns, an error or a response
  pointer that may be nil. The handlers also return the calls they made, in order.
\<close>

record APIClient =
  CreateDatabase :: "string \<Rightarrow> string \<Rightarrow> CreateDatabasePayload \<Rightarrow>
                     go_error + InstanceCreateDatabaseResponse option"
  ListDatabases :: "string \<Rightarrow> string \<Rightarrow> go_error + InstanceListDatabasesResponse option"

datatype api_call =
    CallCreateDatabase string string CreateDatabasePayload
  | CallListDatabases string string

text \<open>
  A handler's response: the diagnostics collector and the state, which is null
  (\<open>None\<close>) after \<^verbatim>\<open>RemoveResource\<close>. A request is what decoding its plan or state
  into a \<^verbatim>\<open>Model\<close> yields: the diagnostics of the decoding and the model.
\<close>

record Response =
  resp_Diagnostics :: Diagnostics
  resp_State :: "Model option"

type_synonym Request = "Diagnostics \<times> Model"

section \<open>The functions of the resource\<close>

text \<open>
  \<^verbatim>\<open>mapFields\<close> writes through the model pointer, so it returns the error (if any)
  together with the model as it stands when the function returns.
\<close>

definition mapFields ::
  "InstanceDatabase option \<Rightarrow> Model option \<Rightarrow> go_error option \<times> Model option" where
  "mapFields databaseResp model =
     (case databaseResp of
        None \<Rightarrow> (Some (Errorf ''response is nil''), model)
      | Some db \<Rightarrow>
          if db_Id db = None \<or> db_Id db = Some '''' then (Some (Errorf ''id not present''), model)
          else
            (case model of
               None \<Rightarrow> (Some (Errorf ''model input is nil''), None)
             | Some m \<Rightarrow>
                 (case (if ValueString (model_DatabaseId m) \<noteq> ''''
                        then Some (ValueString (model_DatabaseId m))
                        else db_Id db) of
                    None \<Rightarrow> (Some (Errorf ''database id not present''), Some m)
                  | Some databaseId \<Rightarrow>
                      let idParts = [ValueString (model_ProjectId m),
                                     ValueString (model_InstanceId m),
                                     databaseId];
                          m1 = m\<lparr>model_Id := StringValue (strings_Join idParts Separator)\<rparr>;
                          m2 = m1\<lparr>model_DatabaseId := StringValue databaseId\<rparr>;
                          m3 = m2\<lparr>model_Name := StringPointerValue (db_Name db)\<rparr>
                      in (case db_Options db of
                            None \<Rightarrow> (None, Some m3)
                          | Some opts \<Rightarrow>
                              (case opts ''owner'' of
                                 None \<Rightarrow> (None, Some m3)
                               | Some owner \<Rightarrow>
                                   (case owner of
                                      IString ownerStr \<Rightarrow>
                                        (None, Some (m3\<lparr>model_Owner := StringValue ownerStr\<rparr>))
                                    | _ \<Rightarrow> (Some (Errorf ''owner is not a string''), Some m3)))))))"

definition toCreatePayload :: "Model option \<Rightarrow> go_error + CreateDatabasePayload" where
  "toCreatePayload model =
     (case model of
        None \<Rightarrow> Inl (Errorf ''nil model'')
      | Some m \<Rightarrow>
          Inr \<lparr>payload_Name = ValueStringPointer (model_Name m),
               payload_Options = Some [''owner'' \<mapsto> ValueString (model_Owner m)]\<rparr>)"

text \<open>
  The loop of \<^verbatim>\<open>getDatabase\<close> over the returned slice: the test
  \<^verbatim>\<open>database.Id != nil && *database.Id == databaseId\<close> reads the pointer only when it
  is not nil.
\<close>

fun scan_databases :: "InstanceDatabase list \<Rightarrow> string \<Rightarrow> go_error + InstanceDatabase" where
  "scan_databases [] databaseId = Inl (Errorf ''database not found'')"
| "scan_databases (database # rest) databaseId =
     (case db_Id database of
        None \<Rightarrow> scan_databases rest databaseId
      | Some i \<Rightarrow> if i = databaseId then Inr database else scan_databases rest databaseId)"

definition getDatabase ::
  "APIClient \<Rightarrow> string \<Rightarrow> string \<Rightarrow> string \<Rightarrow> go_error + InstanceDatabase" where
  "getDatabase client projectId instanceId databaseId =
     (case ListDatabases client projectId instanceId of
        Inl err \<Rightarrow> Inl err
      | Inr resp \<Rightarrow>
          (case resp of
             None \<Rightarrow> Inl (Errorf ''response is nil'')
           | Some r \<Rightarrow>
               (case list_Databases r of
                  None \<Rightarrow> Inl (Errorf ''response is nil'')
                | Some databases \<Rightarrow> scan_databases databases databaseId)))"

text \<open>
  \<^verbatim>\<open>State.SetAttribute\<close> at a root attribute path with a Go string: the attribute
  becomes that known value; in a null state the object is created first, every other
  attribute null. A path outside the schema is refused with an error diagnostic.
\<close>

definition null_Model :: Model where
  "null_Model = \<lparr>model_Id = StringNull, model_DatabaseId = StringNull,
                  model_InstanceId = StringNull, model_ProjectId = StringNull,
                  model_Name = StringNull, model_Owner = StringNull\<rparr>"

definition SetAttribute :: "Model option \<Rightarrow> string \<Rightarrow> string \<Rightarrow> Diagnostics \<times> Model option" where
  "SetAttribute state root v =
     (let m = (case state of None \<Rightarrow> null_Model | Some m0 \<Rightarrow> m0) in
      if root = ''id'' then ([], Some (m\<lparr>model_Id := StringValue v\<rparr>))
      else if root = ''database_id'' then ([], Some (m\<lparr>model_DatabaseId := StringValue v\<rparr>))
      else if root = ''instance_id'' then ([], Some (m\<lparr>model_InstanceId := StringValue v\<rparr>))
      else if root = ''project_id'' then ([], Some (m\<lparr>model_ProjectId := StringValue v\<rparr>))
      else if root = ''name'' then ([], Some (m\<lparr>model_Name := StringValue v\<rparr>))
      else if root = ''owner'' then ([], Some (m\<lparr>model_Owner := StringValue v\<rparr>))
      else ([ErrorDiagnostic ''State Write Error'' root], state))"

text \<open>
  \<^verbatim>\<open>Create\<close>. \<^verbatim>\<open>State.Set\<close> with a \<^verbatim>\<open>Model\<close> replaces the whole state and
  reports nothing, the struct being the schema's.
\<close>

definition Create :: "APIClient \<Rightarrow> Request \<Rightarrow> Response \<Rightarrow> Response \<times> api_call list" where
  "Create client req resp =
     (let (diags, model) = req;
          diagnostics = Diagnostics_Append (resp_Diagnostics resp) diags
      in if HasError diagnostics then (resp\<lparr>resp_Diagnostics := diagnostics\<rparr>, [])
         else
           let projectId = ValueString (model_ProjectId model);
               instanceId = ValueString (model_InstanceId model)
           in (case toCreatePayload (Some model) of
                 Inl err \<Rightarrow>
                   (resp\<lparr>resp_Diagnostics := LogAndAddError diagnostics
                       ''Error creating database'' (''Creating API payload: '' @ Error err)\<rparr>, [])
               | Inr payload \<Rightarrow>
                   let created = [CallCreateDatabase projectId instanceId payload];
                       no_id = (resp\<lparr>resp_Diagnostics := LogAndAddError diagnostics
                                  ''Error creating database''
                                  ''API didn't return database Id. A database might have been created''\<rparr>,
                                created)
                   in (case CreateDatabase client projectId instanceId payload of
                         Inl err \<Rightarrow>
                           (resp\<lparr>resp_Diagnostics := LogAndAddError diagnostics
                               ''Error creating database'' (''Calling API: '' @ Error err)\<rparr>, created)
                       | Inr databaseResp \<Rightarrow>
                           (case databaseResp of
                              None \<Rightarrow> no_id
                            | Some r \<Rightarrow>
                                (case create_Id r of
                                   None \<Rightarrow> no_id
                                 | Some databaseId \<Rightarrow>
                                     if databaseId = '''' then no_id
                                     else
                                       let calls = created @ [CallListDatabases projectId instanceId]
                                       in (case getDatabase client projectId instanceId databaseId of
                                             Inl err \<Rightarrow>
                                               (resp\<lparr>resp_Diagnostics := LogAndAddError diagnostics
                                                   ''Error creating database''
                                                   (''Getting database details after creation: '' @ Error err)\<rparr>,
                                                calls)
                                           | Inr database \<Rightarrow>
                                               (case mapFields (Some database) (Some model) of
                                                  (Some err, model') \<Rightarrow>
                                                    (resp\<lparr>resp_Diagnostics := LogAndAddError diagnostics
                                                        ''Error creating database''
                                                        (''Processing API payload: '' @ Error err)\<rparr>,
                                                     calls)
                                                | (None, model') \<Rightarrow>
                                                    (resp\<lparr>resp_Diagnostics := diagnostics,
                                                          resp_State := model'\<rparr>, calls))))))))"

text \<open>
  \<^verbatim>\<open>Read\<close>. The type assertion \<^verbatim>\<open>err.(*oapierror.GenericOpenAPIError)\<close> holds
  for an error of that type only.
\<close>

definition Read :: "APIClient \<Rightarrow> Request \<Rightarrow> Response \<Rightarrow> Response \<times> api_call list" where
  "Read client req resp =
     (let (diags, model) = req;
          diagnostics = Diagnostics_Append (resp_Diagnostics resp) diags
      in if HasError diagnostics then (resp\<lparr>resp_Diagnostics := diagnostics\<rparr>, [])
         else
           let projectId = ValueString (model_ProjectId model);
               instanceId = ValueString (model_InstanceId model);
               databaseId = ValueString (model_DatabaseId model);
               calls = [CallListDatabases projectId instanceId]
           in (case getDatabase client projectId instanceId databaseId of
                 Inl err \<Rightarrow>
                   if (case err of
                         GenericOpenAPIError code msg \<Rightarrow> code = StatusNotFound
                       | _ \<Rightarrow> False)
                   then (resp\<lparr>resp_Diagnostics := diagnostics, resp_State := None\<rparr>, calls)
                   else (resp\<lparr>resp_Diagnostics := LogAndAddError diagnostics
                             ''Error reading database'' (''Calling API: '' @ Error err)\<rparr>, calls)
               | Inr databaseResp \<Rightarrow>
                   (case mapFields (Some databaseResp) (Some model) of
                      (Some err, model') \<Rightarrow>
                        (resp\<lparr>resp_Diagnostics := LogAndAddError diagnostics
                            ''Error reading database'' (''Processing API payload: '' @ Error err)\<rparr>,
                         calls)
                    | (None, model') \<Rightarrow>
                        (resp\<lparr>resp_Diagnostics := diagnostics, resp_State := model'\<rparr>, calls))))"

text \<open>\<^verbatim>\<open>Update\<close> ignores its request and never touches the client.\<close>

definition Update :: "APIClient \<Rightarrow> 'req \<Rightarrow> Response \<Rightarrow> Response \<times> api_call list" where
  "Update client req resp =
     (resp\<lparr>resp_Diagnostics := LogAndAddError (resp_Diagnostics resp)
         ''Error updating database'' ''Database can't be updated''\<rparr>, [])"

text \<open>
  \<^verbatim>\<open>ImportState\<close>. The detail of its error quotes the identifier with the
  \<^verbatim>\<open>%q\<close> verb of \<^verbatim>\<open>fmt.Sprintf\<close>, taken here as the parameter \<open>quote\<close>. The
  indexing in the guard is evaluated only when the length is 3.
\<close>

definition ImportState :: "(string \<Rightarrow> string) \<Rightarrow> string \<Rightarrow> Response \<Rightarrow> Response \<times> api_call list" where
  "ImportState quote req_ID resp =
     (let idParts = strings_Split req_ID Separator in
      if length idParts \<noteq> 3 \<or> idParts ! 0 = '''' \<or> idParts ! 1 = '''' \<or> idParts ! 2 = ''''
      then (resp\<lparr>resp_Diagnostics := LogAndAddError (resp_Diagnostics resp)
                ''Error importing database''
                (''Expected import identifier with format [project_id],[instance_id],[database_id], got ''
                 @ quote req_ID)\<rparr>, [])
      else
        let (d1, s1) = SetAttribute (resp_State resp) ''project_id'' (idParts ! 0);
            diags1 = Diagnostics_Append (resp_Diagnostics resp) d1;
            (d2, s2) = SetAttribute s1 ''instance_id'' (idParts ! 1);
            diags2 = Diagnostics_Append diags1 d2;
            (d3, s3) = SetAttribute s2 ''database_id'' (idParts ! 2);
            diags3 = Diagnostics_Append diags2 d3
        in (resp\<lparr>resp_Diagnostics := LogAndAddWarning diags3
                ''Postgresflex database imported with empty password''
                ''The database password is not imported as it is only available upon creation of a new database. The password field will be empty.'',
              resp_State := s3\<rparr>, []))"

section \<open>Auxiliary facts\<close>

subsection \<open>Diagnostics\<close>


lemma HasError_iff: "HasError ds = (\<exists>d \<in> set ds. is_error d)"
  by (simp add: HasError_def list_ex_iff)

lemma set_Diagnostics_Append: "set (Diagnostics_Append ds es) = set ds \<union> set es"
  by (induction es arbitrary: ds) auto

lemma HasError_Diagnostics_Append:
  "HasError (Diagnostics_Append ds es) = (HasError ds \<or> HasError es)"
  by (auto simp: HasError_iff set_Diagnostics_Append)

lemma HasError_LogAndAddError: "HasError (LogAndAddError ds s d)"
  unfolding LogAndAddError_def AddError_def HasError_Diagnostics_Append
  by (simp add: HasError_def)

lemma LogAndAddError_mem: "ErrorDiagnostic s d \<in> set (LogAndAddError ds s d)"
  unfolding LogAndAddError_def AddError_def set_Diagnostics_Append by simp

lemma HasError_LogAndAddWarning: "HasError (LogAndAddWarning ds s d) = HasError ds"
  unfolding LogAndAddWarning_def AddWarning_def HasError_Diagnostics_Append
  by (simp add: HasError_def)

subsection \<open>Splitting and joining at a one-character separator\<close>

lemma split_from_char:
  "split_from [c] cur (x # xs) =
     (if x = c then cur # split_from [c] [] xs else split_from [c] (cur @ [x]) xs)"
  by simp

lemma split_from_not_Nil: "split_from sep cur s \<noteq> []"
  by (induction sep cur s rule: split_from.induct) auto

lemma split_from_free: "c \<notin> set p \<Longrightarrow> split_from [c] cur p = [cur @ p]"
  by (induction p arbitrary: cur) auto

lemma split_from_at:
  "c \<notin> set p \<Longrightarrow> split_from [c] cur (p @ c # rest) = (cur @ p) # split_from [c] [] rest"
  by (induction p arbitrary: cur) auto

lemma strings_Join_Cons:
  "rest \<noteq> [] \<Longrightarrow> strings_Join (x # rest) sep = x @ sep @ strings_Join rest sep"
  by (cases rest) auto

lemma Join_split_from: "strings_Join (split_from [c] cur s) [c] = cur @ s"
  by (induction s arbitrary: cur) (auto simp: strings_Join_Cons split_from_not_Nil)

lemma split_from_parts_free:
  "c \<notin> set cur \<Longrightarrow> \<forall>part \<in> set (split_from [c] cur s). c \<notin> set part"
proof (induction s arbitrary: cur)
  case Nil
  then show ?case by simp
next
  case (Cons x xs)
  show ?case
  proof (cases "x = c")
    case True
    then show ?thesis using Cons.IH [of "[]"] Cons.prems by simp
  next
    case False
    then show ?thesis using Cons.IH [of "cur @ [x]"] Cons.prems by simp
  qed
qed

lemma strings_Contains_char: "strings_Contains s [c] = (c \<in> set s)"
  by (induction s) auto

lemma Split_Join3:
  assumes "\<not> strings_Contains p Separator" "\<not> strings_Contains i Separator"
    "\<not> strings_Contains d Separator"
  shows "strings_Split (strings_Join [p, i, d] Separator) Separator = [p, i, d]"
  using assms
  by (simp add: Separator_def strings_Split_def strings_Contains_char split_from_at split_from_free)

lemma Split3_Join:
  assumes "strings_Split raw Separator = [p, i, d]"
  shows "raw = strings_Join [p, i, d] Separator \<and> \<not> strings_Contains p Separator
     \<and> \<not> strings_Contains i Separator \<and> \<not> strings_Contains d Separator"
proof -
  have s: "split_from '','' [] raw = [p, i, d]"
    using assms by (simp add: strings_Split_def Separator_def)
  have "strings_Join (split_from '','' [] raw) '','' = raw"
    using Join_split_from [of "CHR '',''" "[]" raw] by simp
  then have j: "raw = strings_Join [p, i, d] Separator"
    by (simp add: s Separator_def)
  have "\<forall>part \<in> set [p, i, d]. CHR '','' \<notin> set part"
    using split_from_parts_free [of "CHR '',''" "[]" raw] s by simp
  then show ?thesis
    using j by (simp add: strings_Contains_char Separator_def)
qed

subsection \<open>The scan of \<^verbatim>\<open>getDatabase\<close>\<close>

lemma scan_databases_find:
  "scan_databases dbs t =
     (case find (\<lambda>d. db_Id d = Some t) dbs of
        Some d \<Rightarrow> Inr d
      | None \<Rightarrow> Inl (Errorf ''database not found''))"
  by (induction dbs) (auto split: option.splits)

lemma scan_databases_first:
  "\<forall>x \<in> set pre. db_Id x \<noteq> Some t \<Longrightarrow> db_Id d = Some t \<Longrightarrow>
   scan_databases (pre @ d # post) t = Inr d"
  by (induction pre) (auto split: option.splits)

lemma scan_databases_none:
  "\<forall>x \<in> set dbs. db_Id x \<noteq> Some t \<Longrightarrow>
   scan_databases dbs t = Inl (Errorf ''database not found'')"
  by (induction dbs) (auto split: option.splits)

lemma scan_databases_match:
  "scan_databases dbs t = Inr d \<Longrightarrow> d \<in> set dbs \<and> db_Id d = Some t"
  by (induction dbs) (auto split: option.splits if_splits)

lemma scan_databases_filter:
  "scan_databases (filter (\<lambda>d. db_Id d \<noteq> None) dbs) t = scan_databases dbs t"
  by (induction dbs) (auto split: option.splits)

lemma getDatabase_scan:
  "ListDatabases client projectId instanceId = Inr (Some r) \<Longrightarrow> list_Databases r = Some dbs \<Longrightarrow>
   getDatabase client projectId instanceId t = scan_databases dbs t"
  by (simp add: getDatabase_def)

section \<open>The create payload\<close>

text \<open>
  C8. For a record that is not nil, \<^verbatim>\<open>toCreatePayload\<close> returns a payload whose
  \<^verbatim>\<open>Name\<close> is the record's \<^verbatim>\<open>Name\<close> handed on as a pointer (nil for a null
  name) and whose \<^verbatim>\<open>Options\<close> map has the single key \<^verbatim>\<open>owner\<close>, bound to the
  record's \<^verbatim>\<open>Owner\<close> read as a string. It returns an error exactly when the record
  is nil.
\<close>

theorem toCreatePayload_builds:
  "toCreatePayload (Some m) =
     Inr \<lparr>payload_Name = ValueStringPointer (model_Name m),
          payload_Options = Some [''owner'' \<mapsto> ValueString (model_Owner m)]\<rparr>
   \<and> dom [''owner'' \<mapsto> ValueString (model_Owner m)] = {''owner''}
   \<and> ((\<exists>err. toCreatePayload model = Inl err) = (model = None))"
  by (auto simp: toCreatePayload_def split: option.splits)

theorem toCreatePayload_builds_witness:
  "toCreatePayload (Some \<lparr>model_Id = StringUnknown, model_DatabaseId = StringUnknown,
       model_InstanceId = StringValue ''i'', model_ProjectId = StringValue ''p'',
       model_Name = StringValue ''mydb'', model_Owner = StringValue ''alice''\<rparr>) =
     Inr \<lparr>payload_Name = Some ''mydb'', payload_Options = Some [''owner'' \<mapsto> ''alice'']\<rparr>
   \<and> (\<exists>err. toCreatePayload None = Inl err)"
  using toCreatePayload_builds [of "\<lparr>model_Id = StringUnknown, model_DatabaseId = StringUnknown,
       model_InstanceId = StringValue ''i'', model_ProjectId = StringValue ''p'',
       model_Name = StringValue ''mydb'', model_Owner = StringValue ''alice''\<rparr>" None]
  by simp

section \<open>Update\<close>

text \<open>
  C9. Whatever the request and the client, \<^verbatim>\<open>Update\<close> adds the error
  \<^verbatim>\<open>Error updating database\<close> / \<^verbatim>\<open>Database can't be updated\<close> to the diagnostics,
  so the response has an error; it leaves the state as it was and makes no remote call,
  and its result does not depend on the request or the client.
\<close>

theorem Update_always_fails:
  "Update client req resp =
     (resp\<lparr>resp_Diagnostics := LogAndAddError (resp_Diagnostics resp)
         ''Error updating database'' ''Database can't be updated''\<rparr>, [])
   \<and> HasError (resp_Diagnostics (fst (Update client req resp)))
   \<and> ErrorDiagnostic ''Error updating database'' ''Database can't be updated''
       \<in> set (resp_Diagnostics (fst (Update client req resp)))
   \<and> resp_State (fst (Update client req resp)) = resp_State resp
   \<and> snd (Update client req resp) = []
   \<and> Update client req resp = Update client' req' resp"
  by (simp add: Update_def HasError_LogAndAddError LogAndAddError_mem)

section \<open>Lookup by scan\<close>

lemma find_filter_implied:
  "(\<And>x. P x \<Longrightarrow> Q x) \<Longrightarrow> find P (filter Q xs) = find P xs"
  by (induction xs) auto

lemma find_first:
  "\<forall>x \<in> set pre. \<not> P x \<Longrightarrow> P d \<Longrightarrow> find P (pre @ d # post) = Some d"
  by (induction pre) auto

lemma scan_databases_none_iff:
  "(scan_databases dbs t = Inl (Errorf ''database not found''))
     = (\<forall>x \<in> set dbs. db_Id x \<noteq> Some t)"
  by (induction dbs) (auto split: option.splits)

lemma getDatabase_find:
  "getDatabase client projectId instanceId t =
     (case ListDatabases client projectId instanceId of
        Inl err \<Rightarrow> Inl err
      | Inr resp \<Rightarrow>
          (case resp of
             None \<Rightarrow> Inl (Errorf ''response is nil'')
           | Some r \<Rightarrow>
               (case list_Databases r of
                  None \<Rightarrow> Inl (Errorf ''response is nil'')
                | Some dbs \<Rightarrow>
                    (case find (\<lambda>d. db_Id d = Some t) dbs of
                       Some d \<Rightarrow> Inr d
                     | None \<Rightarrow> Inl (Errorf ''database not found'')))))"
  by (simp add: getDatabase_def scan_databases_find split: sum.splits option.splits)

text \<open>
  C6. \<^verbatim>\<open>getDatabase\<close> is determined on every outcome of the list call. A failed
  call hands its own error on; a nil response or a nil container gives the error
  \<^verbatim>\<open>response is nil\<close>; and on a returned list the result is the first element, in
  the order returned, whose \<^verbatim>\<open>Id\<close> is the target: every element before it has
  another \<^verbatim>\<open>Id\<close>, so among duplicates the first wins. On a returned list the
  error \<^verbatim>\<open>database not found\<close> is the result exactly when no element matches, in
  particular on the empty list. That error is distinct from the other failures: it is
  not the error of a nil response or container, and \<^verbatim>\<open>getDatabase\<close> returns it only
  when a list was returned without a match, or when the list call itself failed with
  that very error. The result is a value in every case.
\<close>

theorem getDatabase_first_match:
  "getDatabase client projectId instanceId t =
     (case ListDatabases client projectId instanceId of
        Inl err \<Rightarrow> Inl err
      | Inr resp \<Rightarrow>
          (case resp of
             None \<Rightarrow> Inl (Errorf ''response is nil'')
           | Some r' \<Rightarrow>
               (case list_Databases r' of
                  None \<Rightarrow> Inl (Errorf ''response is nil'')
                | Some dbs' \<Rightarrow>
                    (case find (\<lambda>d. db_Id d = Some t) dbs' of
                       Some d \<Rightarrow> Inr d
                     | None \<Rightarrow> Inl (Errorf ''database not found'')))))
   \<and> (ListDatabases client projectId instanceId = Inr (Some r) \<and> list_Databases r = Some dbs \<longrightarrow>
        getDatabase client projectId instanceId t =
           (case find (\<lambda>d. db_Id d = Some t) dbs of
              Some d \<Rightarrow> Inr d
            | None \<Rightarrow> Inl (Errorf ''database not found''))
        \<and> (dbs = pre @ d # post \<and> (\<forall>x \<in> set pre. db_Id x \<noteq> Some t) \<and> db_Id d = Some t
             \<longrightarrow> getDatabase client projectId instanceId t = Inr d)
        \<and> ((\<forall>x \<in> set dbs. db_Id x \<noteq> Some t)
             \<longrightarrow> getDatabase client projectId instanceId t = Inl (Errorf ''database not found''))
        \<and> (dbs = [] \<longrightarrow> getDatabase client projectId instanceId t = Inl (Errorf ''database not found''))
        \<and> ((getDatabase client projectId instanceId t = Inl (Errorf ''database not found''))
             = (\<forall>x \<in> set dbs. db_Id x \<noteq> Some t)))
   \<and> (ListDatabases client projectId instanceId = Inl err \<longrightarrow>
        getDatabase client projectId instanceId t = Inl err)
   \<and> (ListDatabases client projectId instanceId = Inr None
        \<or> (\<exists>r'. ListDatabases client projectId instanceId = Inr (Some r') \<and> list_Databases r' = None)
        \<longrightarrow> getDatabase client projectId instanceId t = Inl (Errorf ''response is nil'')
            \<and> getDatabase client projectId instanceId t \<noteq> Inl (Errorf ''database not found''))
   \<and> (getDatabase client projectId instanceId t = Inl (Errorf ''database not found'') \<longrightarrow>
        ListDatabases client projectId instanceId = Inl (Errorf ''database not found'')
        \<or> (\<exists>r' dbs'. ListDatabases client projectId instanceId = Inr (Some r')
               \<and> list_Databases r' = Some dbs' \<and> (\<forall>x \<in> set dbs'. db_Id x \<noteq> Some t)))"
proof (intro conjI impI)
  show "getDatabase client projectId instanceId t =
     (case ListDatabases client projectId instanceId of
        Inl err \<Rightarrow> Inl err
      | Inr resp \<Rightarrow>
          (case resp of
             None \<Rightarrow> Inl (Errorf ''response is nil'')
           | Some r' \<Rightarrow>
               (case list_Databases r' of
                  None \<Rightarrow> Inl (Errorf ''response is nil'')
                | Some dbs' \<Rightarrow>
                    (case find (\<lambda>d. db_Id d = Some t) dbs' of
                       Some d \<Rightarrow> Inr d
                     | None \<Rightarrow> Inl (Errorf ''database not found'')))))"
    by (rule getDatabase_find)
next
  assume l: "ListDatabases client projectId instanceId = Inr (Some r) \<and> list_Databases r = Some dbs"
  then have g: "getDatabase client projectId instanceId t = scan_databases dbs t"
    by (simp add: getDatabase_scan)
  show "getDatabase client projectId instanceId t =
           (case find (\<lambda>d. db_Id d = Some t) dbs of
              Some d \<Rightarrow> Inr d
            | None \<Rightarrow> Inl (Errorf ''database not found''))"
    unfolding g by (rule scan_databases_find)
  show "getDatabase client projectId instanceId t = Inl (Errorf ''database not found'')"
    if "\<forall>x \<in> set dbs. db_Id x \<noteq> Some t"
    unfolding g using that by (rule scan_databases_none)
  show "getDatabase client projectId instanceId t = Inl (Errorf ''database not found'')"
    if "dbs = []"
    unfolding g using that by simp
  show "getDatabase client projectId instanceId t = Inr d"
    if "dbs = pre @ d # post \<and> (\<forall>x \<in> set pre. db_Id x \<noteq> Some t) \<and> db_Id d = Some t"
    unfolding g using that by (simp add: scan_databases_first)
  show "(getDatabase client projectId instanceId t = Inl (Errorf ''database not found''))
             = (\<forall>x \<in> set dbs. db_Id x \<noteq> Some t)"
    unfolding g by (rule scan_databases_none_iff)
next
  assume "ListDatabases client projectId instanceId = Inl err"
  then show "getDatabase client projectId instanceId t = Inl err"
    by (simp add: getDatabase_def)
next
  assume n: "ListDatabases client projectId instanceId = Inr None
        \<or> (\<exists>r'. ListDatabases client projectId instanceId = Inr (Some r') \<and> list_Databases r' = None)"
  then show e: "getDatabase client projectId instanceId t = Inl (Errorf ''response is nil'')"
    by (auto simp: getDatabase_def)
  show "getDatabase client projectId instanceId t \<noteq> Inl (Errorf ''database not found'')"
    unfolding e by simp
next
  assume "getDatabase client projectId instanceId t = Inl (Errorf ''database not found'')"
  then show "ListDatabases client projectId instanceId = Inl (Errorf ''database not found'')
        \<or> (\<exists>r' dbs'. ListDatabases client projectId instanceId = Inr (Some r')
               \<and> list_Databases r' = Some dbs' \<and> (\<forall>x \<in> set dbs'. db_Id x \<noteq> Some t))"
    unfolding getDatabase_def
    by (auto simp: scan_databases_none_iff split: sum.splits option.splits)
qed

theorem getDatabase_first_match_witness:
  "getDatabase
     \<lparr>CreateDatabase = (\<lambda>p i payload. Inl (OtherError ''unused'')),
      ListDatabases = (\<lambda>p i. Inr (Some \<lparr>list_Databases = Some
        [\<lparr>db_Id = Some ''db-0'', db_Name = Some ''zero'', db_Options = None\<rparr>,
         \<lparr>db_Id = Some ''db-1'', db_Name = Some ''first'', db_Options = None\<rparr>,
         \<lparr>db_Id = Some ''db-1'', db_Name = Some ''second'', db_Options = None\<rparr>]\<rparr>))\<rparr>
     ''p'' ''i'' ''db-1''
   = Inr \<lparr>db_Id = Some ''db-1'', db_Name = Some ''first'', db_Options = None\<rparr>
   \<and> getDatabase
     \<lparr>CreateDatabase = (\<lambda>p i payload. Inl (OtherError ''unused'')),
      ListDatabases = (\<lambda>p i. Inr (Some \<lparr>list_Databases = Some []\<rparr>))\<rparr>
     ''p'' ''i'' ''db-1''
   = Inl (Errorf ''database not found'')
   \<and> getDatabase
     \<lparr>CreateDatabase = (\<lambda>p i payload. Inl (OtherError ''unused'')),
      ListDatabases = (\<lambda>p i. Inr (Some \<lparr>list_Databases = None\<rparr>))\<rparr>
     ''p'' ''i'' ''db-1''
   = Inl (Errorf ''response is nil'')
   \<and> getDatabase
     \<lparr>CreateDatabase = (\<lambda>p i payload. Inl (OtherError ''unused'')),
      ListDatabases = (\<lambda>p i. Inl (GenericOpenAPIError 500 ''internal server error''))\<rparr>
     ''p'' ''i'' ''db-1''
   = Inl (GenericOpenAPIError 500 ''internal server error'')"
proof -
  let ?zero = "\<lparr>db_Id = Some ''db-0'', db_Name = Some ''zero'', db_Options = None\<rparr>"
  let ?first = "\<lparr>db_Id = Some ''db-1'', db_Name = Some ''first'', db_Options = None\<rparr>"
  let ?second = "\<lparr>db_Id = Some ''db-1'', db_Name = Some ''second'', db_Options = None\<rparr>"
  let ?create = "\<lambda>(p::string) (i::string) (payload::CreateDatabasePayload).
      (Inl (OtherError ''unused'') :: go_error + InstanceCreateDatabaseResponse option)"
  let ?c1 = "\<lparr>CreateDatabase = ?create,
      ListDatabases = (\<lambda>p i. Inr (Some \<lparr>list_Databases = Some [?zero, ?first, ?second]\<rparr>))\<rparr>"
  let ?c2 = "\<lparr>CreateDatabase = ?create,
      ListDatabases = (\<lambda>p i. Inr (Some \<lparr>list_Databases = Some []\<rparr>))\<rparr>"
  let ?c3 = "\<lparr>CreateDatabase = ?create,
      ListDatabases = (\<lambda>p i. Inr (Some \<lparr>list_Databases = None\<rparr>))\<rparr>"
  let ?c4 = "\<lparr>CreateDatabase = ?create,
      ListDatabases = (\<lambda>p i. Inl (GenericOpenAPIError 500 ''internal server error''))\<rparr>"
  note t1 = getDatabase_first_match [where client = ?c1 and projectId = "''p''"
      and instanceId = "''i''" and t = "''db-1''"
      and r = "\<lparr>list_Databases = Some [?zero, ?first, ?second]\<rparr>"
      and dbs = "[?zero, ?first, ?second]" and pre = "[?zero]" and d = ?first
      and post = "[?second]"]
  note t2 = getDatabase_first_match [where client = ?c2 and projectId = "''p''"
      and instanceId = "''i''" and t = "''db-1''"
      and r = "\<lparr>list_Databases = Some []\<rparr>" and dbs = "[]"]
  note t3 = getDatabase_first_match [where client = ?c3 and projectId = "''p''"
      and instanceId = "''i''" and t = "''db-1''"]
  note t4 = getDatabase_first_match [where client = ?c4 and projectId = "''p''"
      and instanceId = "''i''" and t = "''db-1''"
      and err = "GenericOpenAPIError 500 ''internal server error''"]
  have a: "getDatabase ?c1 ''p'' ''i'' ''db-1'' = Inr ?first"
    using t1 by simp
  have b: "getDatabase ?c2 ''p'' ''i'' ''db-1'' = Inl (Errorf ''database not found'')"
    using t2 by simp
  have c: "getDatabase ?c3 ''p'' ''i'' ''db-1'' = Inl (Errorf ''response is nil'')"
    using t3 by simp
  have d: "getDatabase ?c4 ''p'' ''i'' ''db-1''
             = Inl (GenericOpenAPIError 500 ''internal server error'')"
    using t4 by simp
  from a b c d show ?thesis
    by simp
qed

text \<open>
  C10. Elements whose \<^verbatim>\<open>Id\<close> is nil do not take part in the scan, wherever they
  stand in the list: the result is the first element with the target \<^verbatim>\<open>Id\<close> of the
  list without them. The scan returns either the error \<^verbatim>\<open>database not found\<close> or
  an element of the list whose \<^verbatim>\<open>Id\<close> is the target, so never an element without
  an \<^verbatim>\<open>Id\<close>. An element with the target \<^verbatim>\<open>Id\<close> is returned when every element
  before it has no \<^verbatim>\<open>Id\<close> or another one; so whenever the list holds an element
  with the target \<^verbatim>\<open>Id\<close> one is found, and the error is the result exactly when
  the list holds none.
\<close>

theorem getDatabase_skips_null_ids:
  assumes "ListDatabases client projectId instanceId = Inr (Some r)"
    and "list_Databases r = Some dbs"
  shows "getDatabase client projectId instanceId t =
           (case find (\<lambda>x. db_Id x = Some t) (filter (\<lambda>x. db_Id x \<noteq> None) dbs) of
              Some x \<Rightarrow> Inr x
            | None \<Rightarrow> Inl (Errorf ''database not found''))
     \<and> getDatabase client projectId instanceId t =
           scan_databases (filter (\<lambda>x. db_Id x \<noteq> None) dbs) t
     \<and> (getDatabase client projectId instanceId t = Inl (Errorf ''database not found'')
          \<or> (\<exists>x \<in> set dbs. getDatabase client projectId instanceId t = Inr x \<and> db_Id x = Some t))
     \<and> (\<forall>x. getDatabase client projectId instanceId t = Inr x \<longrightarrow> db_Id x \<noteq> None)
     \<and> (dbs = pre @ d # post \<and> (\<forall>x \<in> set pre. db_Id x = None \<or> db_Id x \<noteq> Some t)
            \<and> db_Id d = Some t
          \<longrightarrow> getDatabase client projectId instanceId t = Inr d)
     \<and> ((\<exists>x \<in> set dbs. db_Id x = Some t)
          \<longrightarrow> (\<exists>x. getDatabase client projectId instanceId t = Inr x))
     \<and> ((getDatabase client projectId instanceId t = Inl (Errorf ''database not found''))
          = (\<forall>x \<in> set dbs. db_Id x \<noteq> Some t))"
proof -
  have g: "getDatabase client projectId instanceId t = scan_databases dbs t"
    using assms by (rule getDatabase_scan)
  have f: "find (\<lambda>x. db_Id x = Some t) (filter (\<lambda>x. db_Id x \<noteq> None) dbs)
             = find (\<lambda>x. db_Id x = Some t) dbs"
    by (rule find_filter_implied) simp
  have c1: "scan_databases dbs t =
           (case find (\<lambda>x. db_Id x = Some t) (filter (\<lambda>x. db_Id x \<noteq> None) dbs) of
              Some x \<Rightarrow> Inr x
            | None \<Rightarrow> Inl (Errorf ''database not found''))"
    unfolding f by (rule scan_databases_find)
  have c2: "scan_databases dbs t = scan_databases (filter (\<lambda>x. db_Id x \<noteq> None) dbs) t"
    by (rule scan_databases_filter [symmetric])
  have c3: "scan_databases dbs t = Inl (Errorf ''database not found'')
        \<or> (\<exists>x \<in> set dbs. scan_databases dbs t = Inr x \<and> db_Id x = Some t)"
  proof (cases "scan_databases dbs t")
    case (Inl e)
    then show ?thesis by (simp add: scan_databases_find split: option.splits)
  next
    case (Inr x)
    then show ?thesis using scan_databases_match [of dbs t x] by simp
  qed
  have c4: "\<forall>x. scan_databases dbs t = Inr x \<longrightarrow> db_Id x \<noteq> None"
    using scan_databases_match [of dbs t] by auto
  have c5: "dbs = pre @ d # post \<and> (\<forall>x \<in> set pre. db_Id x = None \<or> db_Id x \<noteq> Some t)
            \<and> db_Id d = Some t \<longrightarrow> scan_databases dbs t = Inr d"
    by (auto intro!: scan_databases_first)
  have c7: "(scan_databases dbs t = Inl (Errorf ''database not found''))
          = (\<forall>x \<in> set dbs. db_Id x \<noteq> Some t)"
    by (rule scan_databases_none_iff)
  have c6: "(\<exists>x \<in> set dbs. db_Id x = Some t) \<longrightarrow> (\<exists>x. scan_databases dbs t = Inr x)"
    using c3 c7 by blast
  show ?thesis
    unfolding g using c1 c2 c3 c4 c5 c6 c7 by blast
qed

theorem getDatabase_skips_null_ids_witness:
  "getDatabase
     \<lparr>CreateDatabase = (\<lambda>p i payload. Inl (OtherError ''unused'')),
      ListDatabases = (\<lambda>p i. Inr (Some \<lparr>list_Databases = Some
        [\<lparr>db_Id = None, db_Name = Some ''nameless'', db_Options = None\<rparr>,
         \<lparr>db_Id = Some ''db-0'', db_Name = Some ''zero'', db_Options = None\<rparr>,
         \<lparr>db_Id = None, db_Name = Some ''db-1'', db_Options = None\<rparr>,
         \<lparr>db_Id = Some ''db-1'', db_Name = Some ''mydb'', db_Options = None\<rparr>,
         \<lparr>db_Id = None, db_Name = Some ''last'', db_Options = None\<rparr>]\<rparr>))\<rparr>
     ''p'' ''i'' ''db-1''
   = Inr \<lparr>db_Id = Some ''db-1'', db_Name = Some ''mydb'', db_Options = None\<rparr>"
proof -
  let ?n1 = "\<lparr>db_Id = None, db_Name = Some ''nameless'', db_Options = None\<rparr>"
  let ?zero = "\<lparr>db_Id = Some ''db-0'', db_Name = Some ''zero'', db_Options = None\<rparr>"
  let ?n2 = "\<lparr>db_Id = None, db_Name = Some ''db-1'', db_Options = None\<rparr>"
  let ?mydb = "\<lparr>db_Id = Some ''db-1'', db_Name = Some ''mydb'', db_Options = None\<rparr>"
  let ?n3 = "\<lparr>db_Id = None, db_Name = Some ''last'', db_Options = None\<rparr>"
  let ?r = "\<lparr>list_Databases = Some [?n1, ?zero, ?n2, ?mydb, ?n3]\<rparr>"
  let ?client = "\<lparr>CreateDatabase = (\<lambda>(p::string) (i::string) (payload::CreateDatabasePayload).
        (Inl (OtherError ''unused'') :: go_error + InstanceCreateDatabaseResponse option)),
      ListDatabases = (\<lambda>p i. Inr (Some ?r))\<rparr>"
  have l: "ListDatabases ?client ''p'' ''i'' = Inr (Some ?r)"
    by simp
  have s: "list_Databases ?r = Some [?n1, ?zero, ?n2, ?mydb, ?n3]"
    by simp
  note t = getDatabase_skips_null_ids [OF l s, where t = "''db-1''"
      and pre = "[?n1, ?zero, ?n2]" and d = ?mydb and post = "[?n3]"]
  from t show ?thesis
    by simp
qed

subsection \<open>The read-mapping and its callers\<close>

lemma mapFields_success:
  assumes "mapFields databaseResp model = (None, model')"
  obtains db m i where "databaseResp = Some db" "model = Some m" "db_Id db = Some i" "i \<noteq> ''''"
    "model' = Some (m\<lparr>model_Id := StringValue (strings_Join
                         [ValueString (model_ProjectId m), ValueString (model_InstanceId m),
                          if ValueString (model_DatabaseId m) \<noteq> '''' then ValueString (model_DatabaseId m) else i]
                         Separator),
                      model_DatabaseId := StringValue
                         (if ValueString (model_DatabaseId m) \<noteq> '''' then ValueString (model_DatabaseId m) else i),
                      model_Name := StringPointerValue (db_Name db),
                      model_Owner := (case db_Options db of None \<Rightarrow> model_Owner m
                          | Some opts \<Rightarrow> (case opts ''owner'' of Some (IString s) \<Rightarrow> StringValue s
                               | _ \<Rightarrow> model_Owner m))\<rparr>)"
  using assms
  by (auto simp: mapFields_def Let_def split: option.splits if_splits interface.splits)

lemma mapFields_joined:
  assumes "mapFields databaseResp model = (None, Some m')"
  shows "model_Id m' = StringValue (strings_Join
        [ValueString (model_ProjectId m'), ValueString (model_InstanceId m'),
         ValueString (model_DatabaseId m')] Separator)"
  using assms by (elim mapFields_success) simp

lemma Read_success:
  assumes "Read client req resp = (resp', calls)"
    and "\<not> HasError (resp_Diagnostics resp')"
    and "resp_State resp' = Some m'"
  shows "\<exists>db. getDatabase client (ValueString (model_ProjectId (snd req)))
                 (ValueString (model_InstanceId (snd req)))
                 (ValueString (model_DatabaseId (snd req))) = Inr db
              \<and> mapFields (Some db) (Some (snd req)) = (None, Some m')"
  using assms
  by (auto simp: Read_def Let_def HasError_LogAndAddError
           split: prod.splits if_splits sum.splits option.splits)

lemma Create_success:
  assumes "Create client req resp = (resp', calls)"
    and "\<not> HasError (resp_Diagnostics resp')"
    and "resp_State resp' = Some m'"
  shows "\<exists>db. mapFields (Some db) (Some (snd req)) = (None, Some m')"
  using assms
  by (auto simp: Create_def Let_def HasError_LogAndAddError
           split: prod.splits if_splits sum.splits option.splits)

text \<open>
  The spec's scenario of \<^verbatim>\<open>Create\<close>: the plan names \<^verbatim>\<open>mydb\<close> and its owner
  \<^verbatim>\<open>alice\<close>, the service assigns \<^verbatim>\<open>db-1\<close>, and the list holds that database.
\<close>

lemma Create_scenario:
  "Create
     \<lparr>CreateDatabase = (\<lambda>p i payload. Inr (Some \<lparr>create_Id = Some ''db-1''\<rparr>)),
      ListDatabases = (\<lambda>p i. Inr (Some \<lparr>list_Databases = Some
        [\<lparr>db_Id = Some ''db-1'', db_Name = Some ''mydb'',
          db_Options = Some [''owner'' \<mapsto> IString ''alice'']\<rparr>]\<rparr>))\<rparr>
     ([], \<lparr>model_Id = StringUnknown, model_DatabaseId = StringUnknown,
           model_InstanceId = StringValue ''i'', model_ProjectId = StringValue ''p'',
           model_Name = StringValue ''mydb'', model_Owner = StringValue ''alice''\<rparr>)
     \<lparr>resp_Diagnostics = [], resp_State = None\<rparr>
   = (\<lparr>resp_Diagnostics = [],
       resp_State = Some \<lparr>model_Id = StringValue ''p,i,db-1'', model_DatabaseId = StringValue ''db-1'',
           model_InstanceId = StringValue ''i'', model_ProjectId = StringValue ''p'',
           model_Name = StringValue ''mydb'', model_Owner = StringValue ''alice''\<rparr>\<rparr>,
      [CallCreateDatabase ''p'' ''i''
         \<lparr>payload_Name = Some ''mydb'', payload_Options = Some [''owner'' \<mapsto> ''alice'']\<rparr>,
       CallListDatabases ''p'' ''i''])"
  by (simp add: Create_def toCreatePayload_def getDatabase_def mapFields_def HasError_def
        Separator_def Let_def)

text \<open>A later \<^verbatim>\<open>Read\<close> of that record against the same list.\<close>

lemma Read_scenario:
  "Read
     \<lparr>CreateDatabase = (\<lambda>p i payload. Inr (Some \<lparr>create_Id = Some ''db-1''\<rparr>)),
      ListDatabases = (\<lambda>p i. Inr (Some \<lparr>list_Databases = Some
        [\<lparr>db_Id = Some ''db-1'', db_Name = Some ''mydb'',
          db_Options = Some [''owner'' \<mapsto> IString ''alice'']\<rparr>]\<rparr>))\<rparr>
     ([], \<lparr>model_Id = StringValue ''p,i,db-1'', model_DatabaseId = StringValue ''db-1'',
           model_InstanceId = StringValue ''i'', model_ProjectId = StringValue ''p'',
           model_Name = StringValue ''mydb'', model_Owner = StringValue ''alice''\<rparr>)
     \<lparr>resp_Diagnostics = [],
      resp_State = Some \<lparr>model_Id = StringValue ''p,i,db-1'', model_DatabaseId = StringValue ''db-1'',
           model_InstanceId = StringValue ''i'', model_ProjectId = StringValue ''p'',
           model_Name = StringValue ''mydb'', model_Owner = StringValue ''alice''\<rparr>\<rparr>
   = (\<lparr>resp_Diagnostics = [],
       resp_State = Some \<lparr>model_Id = StringValue ''p,i,db-1'', model_DatabaseId = StringValue ''db-1'',
           model_InstanceId = StringValue ''i'', model_ProjectId = StringValue ''p'',
           model_Name = StringValue ''mydb'', model_Owner = StringValue ''alice''\<rparr>\<rparr>,
      [CallListDatabases ''p'' ''i''])"
  by (simp add: Read_def getDatabase_def mapFields_def HasError_def Separator_def Let_def)

section \<open>The read-mapping\<close>

text \<open>
  C3. Whenever \<^verbatim>\<open>mapFields\<close> returns no error, the record's \<^verbatim>\<open>Id\<close> is the known
  string made of its \<^verbatim>\<open>ProjectId\<close>, \<^verbatim>\<open>InstanceId\<close> and \<^verbatim>\<open>DatabaseId\<close> (each
  read as a string), in that order, joined with the separator. The same holds of the
  record that a \<^verbatim>\<open>Read\<close> or a \<^verbatim>\<open>Create\<close> without error leaves in the state.
\<close>

theorem mapFields_composite_id:
  "(mapFields databaseResp model = (None, Some m') \<longrightarrow>
      model_Id m' = StringValue (strings_Join
        [ValueString (model_ProjectId m'), ValueString (model_InstanceId m'),
         ValueString (model_DatabaseId m')] Separator))
   \<and> (Read client req resp = (resp', calls) \<and> \<not> HasError (resp_Diagnostics resp')
        \<and> resp_State resp' = Some m' \<longrightarrow>
      model_Id m' = StringValue (strings_Join
        [ValueString (model_ProjectId m'), ValueString (model_InstanceId m'),
         ValueString (model_DatabaseId m')] Separator))
   \<and> (Create client req resp = (resp', calls) \<and> \<not> HasError (resp_Diagnostics resp')
        \<and> resp_State resp' = Some m' \<longrightarrow>
      model_Id m' = StringValue (strings_Join
        [ValueString (model_ProjectId m'), ValueString (model_InstanceId m'),
         ValueString (model_DatabaseId m')] Separator))"
proof (intro conjI impI)
  assume "mapFields databaseResp model = (None, Some m')"
  then show "model_Id m' = StringValue (strings_Join
        [ValueString (model_ProjectId m'), ValueString (model_InstanceId m'),
         ValueString (model_DatabaseId m')] Separator)"
    by (rule mapFields_joined)
next
  assume "Read client req resp = (resp', calls) \<and> \<not> HasError (resp_Diagnostics resp')
        \<and> resp_State resp' = Some m'"
  then obtain db where "mapFields (Some db) (Some (snd req)) = (None, Some m')"
    using Read_success [of client req resp resp' calls m'] by blast
  then show "model_Id m' = StringValue (strings_Join
        [ValueString (model_ProjectId m'), ValueString (model_InstanceId m'),
         ValueString (model_DatabaseId m')] Separator)"
    by (rule mapFields_joined)
next
  assume "Create client req resp = (resp', calls) \<and> \<not> HasError (resp_Diagnostics resp')
        \<and> resp_State resp' = Some m'"
  then obtain db where "mapFields (Some db) (Some (snd req)) = (None, Some m')"
    using Create_success [of client req resp resp' calls m'] by blast
  then show "model_Id m' = StringValue (strings_Join
        [ValueString (model_ProjectId m'), ValueString (model_InstanceId m'),
         ValueString (model_DatabaseId m')] Separator)"
    by (rule mapFields_joined)
qed

theorem mapFields_composite_id_witness:
  "fst (Create
     \<lparr>CreateDatabase = (\<lambda>p i payload. Inr (Some \<lparr>create_Id = Some ''db-1''\<rparr>)),
      ListDatabases = (\<lambda>p i. Inr (Some \<lparr>list_Databases = Some
        [\<lparr>db_Id = Some ''db-1'', db_Name = Some ''mydb'',
          db_Options = Some [''owner'' \<mapsto> IString ''alice'']\<rparr>]\<rparr>))\<rparr>
     ([], \<lparr>model_Id = StringUnknown, model_DatabaseId = StringUnknown,
           model_InstanceId = StringValue ''i'', model_ProjectId = StringValue ''p'',
           model_Name = StringValue ''mydb'', model_Owner = StringValue ''alice''\<rparr>)
     \<lparr>resp_Diagnostics = [], resp_State = None\<rparr>)
   = \<lparr>resp_Diagnostics = [],
       resp_State = Some \<lparr>model_Id = StringValue ''p,i,db-1'', model_DatabaseId = StringValue ''db-1'',
           model_InstanceId = StringValue ''i'', model_ProjectId = StringValue ''p'',
           model_Name = StringValue ''mydb'', model_Owner = StringValue ''alice''\<rparr>\<rparr>
   \<and> StringValue ''p,i,db-1'' = StringValue (strings_Join [''p'', ''i'', ''db-1''] Separator)"
proof -
  let ?client = "\<lparr>CreateDatabase = (\<lambda>p i payload. Inr (Some \<lparr>create_Id = Some ''db-1''\<rparr>)),
      ListDatabases = (\<lambda>p i. Inr (Some \<lparr>list_Databases = Some
        [\<lparr>db_Id = Some ''db-1'', db_Name = Some ''mydb'',
          db_Options = Some [''owner'' \<mapsto> IString ''alice'']\<rparr>]\<rparr>))\<rparr>"
  let ?plan = "\<lparr>model_Id = StringUnknown, model_DatabaseId = StringUnknown,
           model_InstanceId = StringValue ''i'', model_ProjectId = StringValue ''p'',
           model_Name = StringValue ''mydb'', model_Owner = StringValue ''alice''\<rparr>"
  let ?m = "\<lparr>model_Id = StringValue ''p,i,db-1'', model_DatabaseId = StringValue ''db-1'',
           model_InstanceId = StringValue ''i'', model_ProjectId = StringValue ''p'',
           model_Name = StringValue ''mydb'', model_Owner = StringValue ''alice''\<rparr>"
  let ?calls = "[CallCreateDatabase ''p'' ''i''
         \<lparr>payload_Name = Some ''mydb'', payload_Options = Some [''owner'' \<mapsto> ''alice'']\<rparr>,
       CallListDatabases ''p'' ''i'']"
  have c: "Create ?client ([], ?plan) \<lparr>resp_Diagnostics = [], resp_State = None\<rparr>
             = (\<lparr>resp_Diagnostics = [], resp_State = Some ?m\<rparr>, ?calls)"
    by (rule Create_scenario)
  have r: "Read ?client ([], ?m) \<lparr>resp_Diagnostics = [], resp_State = Some ?m\<rparr>
             = (\<lparr>resp_Diagnostics = [], resp_State = Some ?m\<rparr>, [CallListDatabases ''p'' ''i''])"
    by (rule Read_scenario)
  have h: "\<not> HasError (resp_Diagnostics \<lparr>resp_Diagnostics = [], resp_State = Some ?m\<rparr>)"
    by (simp add: HasError_def)
  have "model_Id ?m = StringValue (strings_Join
        [ValueString (model_ProjectId ?m), ValueString (model_InstanceId ?m),
         ValueString (model_DatabaseId ?m)] Separator)"
    using mapFields_composite_id [of None None ?m ?client "([], ?m)"
        "\<lparr>resp_Diagnostics = [], resp_State = Some ?m\<rparr>"
        "\<lparr>resp_Diagnostics = [], resp_State = Some ?m\<rparr>" "[CallListDatabases ''p'' ''i'']"]
      r h by simp
  then show ?thesis
    using c by simp
qed

text \<open>
  C5. The read-mapping is idempotent: when \<^verbatim>\<open>mapFields\<close> returns no error and leaves
  the record \<open>model'\<close>, applying it to \<open>model'\<close> with the same remote object again
  returns no error and leaves \<open>model'\<close> as it is.
\<close>

theorem mapFields_idempotent:
  assumes "mapFields databaseResp model = (None, model')"
  shows "mapFields databaseResp model' = (None, model')"
proof -
  obtain db m i where *: "databaseResp = Some db" "model = Some m" "db_Id db = Some i" "i \<noteq> ''''"
    and m': "model' = Some (m\<lparr>model_Id := StringValue (strings_Join
                         [ValueString (model_ProjectId m), ValueString (model_InstanceId m),
                          if ValueString (model_DatabaseId m) \<noteq> '''' then ValueString (model_DatabaseId m) else i]
                         Separator),
                      model_DatabaseId := StringValue
                         (if ValueString (model_DatabaseId m) \<noteq> '''' then ValueString (model_DatabaseId m) else i),
                      model_Name := StringPointerValue (db_Name db),
                      model_Owner := (case db_Options db of None \<Rightarrow> model_Owner m
                          | Some opts \<Rightarrow> (case opts ''owner'' of Some (IString s) \<Rightarrow> StringValue s
                               | _ \<Rightarrow> model_Owner m))\<rparr>)"
    using assms by (rule mapFields_success)
  have ok: "\<And>opts v. db_Options db = Some opts \<Longrightarrow> opts ''owner'' = Some v \<Longrightarrow> \<exists>s. v = IString s"
    using assms * by (auto simp: mapFields_def Let_def split: option.splits if_splits interface.splits)
  show ?thesis
    unfolding m' using * ok
    by (auto simp: mapFields_def Let_def split: option.splits interface.splits)
qed

theorem mapFields_idempotent_witness:
  "mapFields
     (Some \<lparr>db_Id = Some ''db-1'', db_Name = Some ''mydb'',
            db_Options = Some [''owner'' \<mapsto> IString ''alice'']\<rparr>)
     (Some \<lparr>model_Id = StringUnknown, model_DatabaseId = StringUnknown,
            model_InstanceId = StringValue ''i'', model_ProjectId = StringValue ''p'',
            model_Name = StringValue ''old'', model_Owner = StringValue ''bob''\<rparr>)
   = (None, Some \<lparr>model_Id = StringValue ''p,i,db-1'', model_DatabaseId = StringValue ''db-1'',
            model_InstanceId = StringValue ''i'', model_ProjectId = StringValue ''p'',
            model_Name = StringValue ''mydb'', model_Owner = StringValue ''alice''\<rparr>)
   \<and> mapFields
     (Some \<lparr>db_Id = Some ''db-1'', db_Name = Some ''mydb'',
            db_Options = Some [''owner'' \<mapsto> IString ''alice'']\<rparr>)
     (Some \<lparr>model_Id = StringValue ''p,i,db-1'', model_DatabaseId = StringValue ''db-1'',
            model_InstanceId = StringValue ''i'', model_ProjectId = StringValue ''p'',
            model_Name = StringValue ''mydb'', model_Owner = StringValue ''alice''\<rparr>)
   = (None, Some \<lparr>model_Id = StringValue ''p,i,db-1'', model_DatabaseId = StringValue ''db-1'',
            model_InstanceId = StringValue ''i'', model_ProjectId = StringValue ''p'',
            model_Name = StringValue ''mydb'', model_Owner = StringValue ''alice''\<rparr>)"
proof -
  let ?db = "\<lparr>db_Id = Some ''db-1'', db_Name = Some ''mydb'',
            db_Options = Some [''owner'' \<mapsto> IString ''alice'']\<rparr>"
  let ?m = "\<lparr>model_Id = StringUnknown, model_DatabaseId = StringUnknown,
            model_InstanceId = StringValue ''i'', model_ProjectId = StringValue ''p'',
            model_Name = StringValue ''old'', model_Owner = StringValue ''bob''\<rparr>"
  let ?m' = "\<lparr>model_Id = StringValue ''p,i,db-1'', model_DatabaseId = StringValue ''db-1'',
            model_InstanceId = StringValue ''i'', model_ProjectId = StringValue ''p'',
            model_Name = StringValue ''mydb'', model_Owner = StringValue ''alice''\<rparr>"
  have once: "mapFields (Some ?db) (Some ?m) = (None, Some ?m')"
    by (simp add: mapFields_def Separator_def Let_def)
  from mapFields_idempotent [OF once] once show ?thesis
    by simp
qed

text \<open>
  C7. When \<^verbatim>\<open>mapFields\<close> returns no error and the remote object has no
  \<^verbatim>\<open>Options\<close> map, or a map without the key \<^verbatim>\<open>owner\<close>, the record's
  \<^verbatim>\<open>Owner\<close> is what it was before, while \<^verbatim>\<open>Id\<close>, \<^verbatim>\<open>DatabaseId\<close> and
  \<^verbatim>\<open>Name\<close> are written: \<^verbatim>\<open>DatabaseId\<close> is the record's own when that is not
  empty and the remote \<^verbatim>\<open>Id\<close> otherwise, \<^verbatim>\<open>Id\<close> is the join with it, and
  \<^verbatim>\<open>Name\<close> is the remote name.
\<close>

theorem mapFields_keeps_owner:
  assumes "mapFields (Some db) (Some m) = (None, Some m')"
    and "db_Options db = None \<or> (\<exists>opts. db_Options db = Some opts \<and> opts ''owner'' = None)"
  shows "model_Owner m' = model_Owner m
     \<and> model_Id m' = StringValue (strings_Join
         [ValueString (model_ProjectId m), ValueString (model_InstanceId m),
          ValueString (model_DatabaseId m')] Separator)
     \<and> (ValueString (model_DatabaseId m) \<noteq> '''' \<longrightarrow>
          model_DatabaseId m' = StringValue (ValueString (model_DatabaseId m)))
     \<and> (ValueString (model_DatabaseId m) = '''' \<longrightarrow>
          (\<exists>i. db_Id db = Some i \<and> model_DatabaseId m' = StringValue i))
     \<and> model_Name m' = StringPointerValue (db_Name db)"
  using assms
  by (auto simp: mapFields_def Let_def split: option.splits if_splits interface.splits)

theorem mapFields_keeps_owner_witness:
  "mapFields
     (Some \<lparr>db_Id = Some ''db-1'', db_Name = Some ''mydb'', db_Options = Some Map.empty\<rparr>)
     (Some \<lparr>model_Id = StringUnknown, model_DatabaseId = StringUnknown,
            model_InstanceId = StringValue ''i'', model_ProjectId = StringValue ''p'',
            model_Name = StringValue ''old'', model_Owner = StringValue ''bob''\<rparr>)
   = (None, Some \<lparr>model_Id = StringValue ''p,i,db-1'', model_DatabaseId = StringValue ''db-1'',
            model_InstanceId = StringValue ''i'', model_ProjectId = StringValue ''p'',
            model_Name = StringValue ''mydb'', model_Owner = StringValue ''bob''\<rparr>)
   \<and> model_Owner \<lparr>model_Id = StringValue ''p,i,db-1'', model_DatabaseId = StringValue ''db-1'',
            model_InstanceId = StringValue ''i'', model_ProjectId = StringValue ''p'',
            model_Name = StringValue ''mydb'', model_Owner = StringValue ''bob''\<rparr>
       = StringValue ''bob''"
proof -
  let ?db = "\<lparr>db_Id = Some ''db-1'', db_Name = Some ''mydb'', db_Options = Some Map.empty\<rparr>"
  let ?m = "\<lparr>model_Id = StringUnknown, model_DatabaseId = StringUnknown,
            model_InstanceId = StringValue ''i'', model_ProjectId = StringValue ''p'',
            model_Name = StringValue ''old'', model_Owner = StringValue ''bob''\<rparr>"
  let ?m' = "\<lparr>model_Id = StringValue ''p,i,db-1'', model_DatabaseId = StringValue ''db-1'',
            model_InstanceId = StringValue ''i'', model_ProjectId = StringValue ''p'',
            model_Name = StringValue ''mydb'', model_Owner = StringValue ''bob''\<rparr>"
  have once: "mapFields (Some ?db) (Some ?m) = (None, Some ?m')"
    by (simp add: mapFields_def Separator_def Let_def)
  have opts: "db_Options ?db = None \<or> (\<exists>opts. db_Options ?db = Some opts \<and> opts ''owner'' = None)"
    by simp
  from mapFields_keeps_owner [OF once opts] once show ?thesis
    by simp
qed

text \<open>
  C2, as amended. The claim that a non-string \<^verbatim>\<open>owner\<close> always yields the
  type-mismatch error with the record untouched fails on the code: \<^verbatim>\<open>mapFields\<close>
  checks the remote \<^verbatim>\<open>Id\<close> and the record pointer first, and it assigns \<^verbatim>\<open>Id\<close>,
  \<^verbatim>\<open>DatabaseId\<close> and \<^verbatim>\<open>Name\<close> before it looks at the options.

  What holds: for a remote object with a non-empty \<^verbatim>\<open>Id\<close> whose \<^verbatim>\<open>Options\<close> bind
  \<^verbatim>\<open>owner\<close> to a value that is not a string, and a record that is not nil,
  \<^verbatim>\<open>mapFields\<close> returns the error \<^verbatim>\<open>owner is not a string\<close>; by then \<^verbatim>\<open>Id\<close>,
  \<^verbatim>\<open>DatabaseId\<close> and \<^verbatim>\<open>Name\<close> of the record are overwritten, and
  \<^verbatim>\<open>ProjectId\<close>, \<^verbatim>\<open>InstanceId\<close> and \<^verbatim>\<open>Owner\<close> are as before. \<^verbatim>\<open>Read\<close>, which
  maps into its own copy of the record, then reports an error and leaves the state as it
  was.
\<close>

theorem mapFields_owner_mismatch:
  assumes "db_Id db = Some i" and "i \<noteq> ''''"
    and "db_Options db = Some opts" and "opts ''owner'' = Some v" and "\<forall>s. v \<noteq> IString s"
  shows "mapFields (Some db) (Some m) =
           (Some (Errorf ''owner is not a string''),
            Some (m\<lparr>model_Id := StringValue (strings_Join
                       [ValueString (model_ProjectId m), ValueString (model_InstanceId m),
                        if ValueString (model_DatabaseId m) \<noteq> '''' then ValueString (model_DatabaseId m) else i]
                       Separator),
                    model_DatabaseId := StringValue
                       (if ValueString (model_DatabaseId m) \<noteq> '''' then ValueString (model_DatabaseId m) else i),
                    model_Name := StringPointerValue (db_Name db)\<rparr>))
     \<and> (\<forall>m'. snd (mapFields (Some db) (Some m)) = Some m' \<longrightarrow>
            model_ProjectId m' = model_ProjectId m \<and> model_InstanceId m' = model_InstanceId m
            \<and> model_Owner m' = model_Owner m)
     \<and> (getDatabase client (ValueString (model_ProjectId m)) (ValueString (model_InstanceId m))
            (ValueString (model_DatabaseId m)) = Inr db \<longrightarrow>
          resp_State (fst (Read client (diags, m) resp)) = resp_State resp
          \<and> HasError (resp_Diagnostics (fst (Read client (diags, m) resp))))"
proof -
  have a: "mapFields (Some db) (Some m) =
           (Some (Errorf ''owner is not a string''),
            Some (m\<lparr>model_Id := StringValue (strings_Join
                       [ValueString (model_ProjectId m), ValueString (model_InstanceId m),
                        if ValueString (model_DatabaseId m) \<noteq> '''' then ValueString (model_DatabaseId m) else i]
                       Separator),
                    model_DatabaseId := StringValue
                       (if ValueString (model_DatabaseId m) \<noteq> '''' then ValueString (model_DatabaseId m) else i),
                    model_Name := StringPointerValue (db_Name db)\<rparr>))"
    using assms
    by (auto simp: mapFields_def Let_def split: option.splits if_splits interface.splits)
  have b: "getDatabase client (ValueString (model_ProjectId m)) (ValueString (model_InstanceId m))
            (ValueString (model_DatabaseId m)) = Inr db \<Longrightarrow>
          resp_State (fst (Read client (diags, m) resp)) = resp_State resp
          \<and> HasError (resp_Diagnostics (fst (Read client (diags, m) resp)))"
    unfolding Read_def Let_def by (simp add: a HasError_LogAndAddError)
  show ?thesis
    using b unfolding a by simp
qed

theorem mapFields_owner_mismatch_witness:
  "mapFields
     (Some \<lparr>db_Id = Some ''db-1'', db_Name = Some ''mydb'',
            db_Options = Some [''owner'' \<mapsto> INumber 42]\<rparr>)
     (Some \<lparr>model_Id = StringUnknown, model_DatabaseId = StringValue ''db-1'',
            model_InstanceId = StringValue ''i'', model_ProjectId = StringValue ''p'',
            model_Name = StringValue ''old'', model_Owner = StringValue ''bob''\<rparr>)
   = (Some (Errorf ''owner is not a string''),
      Some \<lparr>model_Id = StringValue ''p,i,db-1'', model_DatabaseId = StringValue ''db-1'',
            model_InstanceId = StringValue ''i'', model_ProjectId = StringValue ''p'',
            model_Name = StringValue ''mydb'', model_Owner = StringValue ''bob''\<rparr>)
   \<and> resp_State (fst (Read
        \<lparr>CreateDatabase = (\<lambda>p i payload. Inl (OtherError ''unused'')),
         ListDatabases = (\<lambda>p i. Inr (Some \<lparr>list_Databases = Some
           [\<lparr>db_Id = Some ''db-1'', db_Name = Some ''mydb'',
             db_Options = Some [''owner'' \<mapsto> INumber 42]\<rparr>]\<rparr>))\<rparr>
        ([], \<lparr>model_Id = StringUnknown, model_DatabaseId = StringValue ''db-1'',
            model_InstanceId = StringValue ''i'', model_ProjectId = StringValue ''p'',
            model_Name = StringValue ''old'', model_Owner = StringValue ''bob''\<rparr>)
        \<lparr>resp_Diagnostics = [],
         resp_State = Some \<lparr>model_Id = StringUnknown, model_DatabaseId = StringValue ''db-1'',
            model_InstanceId = StringValue ''i'', model_ProjectId = StringValue ''p'',
            model_Name = StringValue ''old'', model_Owner = StringValue ''bob''\<rparr>\<rparr>))
     = Some \<lparr>model_Id = StringUnknown, model_DatabaseId = StringValue ''db-1'',
            model_InstanceId = StringValue ''i'', model_ProjectId = StringValue ''p'',
            model_Name = StringValue ''old'', model_Owner = StringValue ''bob''\<rparr>"
proof -
  let ?db = "\<lparr>db_Id = Some ''db-1'', db_Name = Some ''mydb'',
            db_Options = Some [''owner'' \<mapsto> INumber 42]\<rparr>"
  let ?m = "\<lparr>model_Id = StringUnknown, model_DatabaseId = StringValue ''db-1'',
            model_InstanceId = StringValue ''i'', model_ProjectId = StringValue ''p'',
            model_Name = StringValue ''old'', model_Owner = StringValue ''bob''\<rparr>"
  let ?client = "\<lparr>CreateDatabase = (\<lambda>p i payload. Inl (OtherError ''unused'')),
         ListDatabases = (\<lambda>p i. Inr (Some \<lparr>list_Databases = Some [?db]\<rparr>))\<rparr>"
  have g: "getDatabase ?client (ValueString (model_ProjectId ?m))
             (ValueString (model_InstanceId ?m)) (ValueString (model_DatabaseId ?m)) = Inr ?db"
    by (simp add: getDatabase_def)
  have h: "db_Id ?db = Some ''db-1''" "''db-1'' \<noteq> ''''"
    "db_Options ?db = Some [''owner'' \<mapsto> INumber 42]"
    "[''owner'' \<mapsto> INumber 42] ''owner'' = Some (INumber 42)"
    "\<forall>s. INumber 42 \<noteq> IString s"
    by simp_all
  from mapFields_owner_mismatch [OF h, of ?m ?client "[]"
      "\<lparr>resp_Diagnostics = [], resp_State = Some ?m\<rparr>"] g
  show ?thesis
    by (simp add: Separator_def)
qed

text \<open>
  The claim as first stated fails at this input: the record comes back changed (first
  equation), and with a nil remote \<^verbatim>\<open>Id\<close> the error is not the type mismatch (second
  equation).
\<close>

theorem mapFields_owner_mismatch_counterexample:
  "mapFields
     (Some \<lparr>db_Id = Some ''db-1'', db_Name = Some ''mydb'',
            db_Options = Some [''owner'' \<mapsto> INumber 42]\<rparr>)
     (Some \<lparr>model_Id = StringUnknown, model_DatabaseId = StringUnknown,
            model_InstanceId = StringValue ''i'', model_ProjectId = StringValue ''p'',
            model_Name = StringValue ''old'', model_Owner = StringValue ''bob''\<rparr>)
   = (Some (Errorf ''owner is not a string''),
      Some \<lparr>model_Id = StringValue ''p,i,db-1'', model_DatabaseId = StringValue ''db-1'',
            model_InstanceId = StringValue ''i'', model_ProjectId = StringValue ''p'',
            model_Name = StringValue ''mydb'', model_Owner = StringValue ''bob''\<rparr>)
   \<and> \<lparr>model_Id = StringValue ''p,i,db-1'', model_DatabaseId = StringValue ''db-1'',
            model_InstanceId = StringValue ''i'', model_ProjectId = StringValue ''p'',
            model_Name = StringValue ''mydb'', model_Owner = StringValue ''bob''\<rparr>
     \<noteq> \<lparr>model_Id = StringUnknown, model_DatabaseId = StringUnknown,
            model_InstanceId = StringValue ''i'', model_ProjectId = StringValue ''p'',
            model_Name = StringValue ''old'', model_Owner = StringValue ''bob''\<rparr>
   \<and> mapFields
     (Some \<lparr>db_Id = None, db_Name = Some ''mydb'',
            db_Options = Some [''owner'' \<mapsto> INumber 42]\<rparr>)
     (Some \<lparr>model_Id = StringUnknown, model_DatabaseId = StringUnknown,
            model_InstanceId = StringValue ''i'', model_ProjectId = StringValue ''p'',
            model_Name = StringValue ''old'', model_Owner = StringValue ''bob''\<rparr>)
   = (Some (Errorf ''id not present''),
      Some \<lparr>model_Id = StringUnknown, model_DatabaseId = StringUnknown,
            model_InstanceId = StringValue ''i'', model_ProjectId = StringValue ''p'',
            model_Name = StringValue ''old'', model_Owner = StringValue ''bob''\<rparr>)"
  by (simp add: mapFields_def Separator_def Let_def)

section \<open>Read\<close>

text \<open>
  What \<^verbatim>\<open>Read\<close> does with a failed lookup: only an error of the type
  \<^verbatim>\<open>GenericOpenAPIError\<close> with status 404 removes the resource; every other error is
  reported, and the state stays.
\<close>

lemma Read_lookup_failure:
  assumes "\<not> HasError (Diagnostics_Append (resp_Diagnostics resp) diags)"
    and "getDatabase client (ValueString (model_ProjectId m)) (ValueString (model_InstanceId m))
            (ValueString (model_DatabaseId m)) = Inl err"
  shows "Read client (diags, m) resp =
     (if (case err of GenericOpenAPIError code msg \<Rightarrow> code = StatusNotFound | _ \<Rightarrow> False)
      then resp\<lparr>resp_Diagnostics := Diagnostics_Append (resp_Diagnostics resp) diags,
                resp_State := None\<rparr>
      else resp\<lparr>resp_Diagnostics := LogAndAddError
                  (Diagnostics_Append (resp_Diagnostics resp) diags)
                  ''Error reading database'' (''Calling API: '' @ Error err)\<rparr>,
      [CallListDatabases (ValueString (model_ProjectId m)) (ValueString (model_InstanceId m))])"
  using assms by (simp add: Read_def Let_def)

lemma Read_scan_not_found:
  assumes "\<not> HasError (Diagnostics_Append (resp_Diagnostics resp) diags)"
    and "ListDatabases client (ValueString (model_ProjectId m)) (ValueString (model_InstanceId m))
           = Inr (Some r)"
    and "list_Databases r = Some dbs"
    and "\<forall>x \<in> set dbs. db_Id x \<noteq> Some (ValueString (model_DatabaseId m))"
  shows "Read client (diags, m) resp =
     (resp\<lparr>resp_Diagnostics := LogAndAddError
                  (Diagnostics_Append (resp_Diagnostics resp) diags)
                  ''Error reading database'' ''Calling API: database not found''\<rparr>,
      [CallListDatabases (ValueString (model_ProjectId m)) (ValueString (model_InstanceId m))])"
proof -
  have "getDatabase client (ValueString (model_ProjectId m)) (ValueString (model_InstanceId m))
            (ValueString (model_DatabaseId m)) = Inl (Errorf ''database not found'')"
    using assms(2-4) by (simp add: getDatabase_scan scan_databases_none)
  from Read_lookup_failure [OF assms(1) this] show ?thesis
    by simp
qed

text \<open>
  C1. The stored \<^verbatim>\<open>DatabaseId\<close> is \<^verbatim>\<open>db-1\<close> and the list the service returns holds
  only \<^verbatim>\<open>db-2\<close>. The scan's error is a plain \<^verbatim>\<open>fmt.Errorf\<close> error, not a
  \<^verbatim>\<open>GenericOpenAPIError\<close>, so \<^verbatim>\<open>Read\<close> reports
  \<^verbatim>\<open>Error reading database\<close> and keeps the state: the resource is not removed.
\<close>

theorem Read_database_absent:
  "Read
     \<lparr>CreateDatabase = (\<lambda>p i payload. Inl (OtherError ''unused'')),
      ListDatabases = (\<lambda>p i. Inr (Some \<lparr>list_Databases = Some
        [\<lparr>db_Id = Some ''db-2'', db_Name = Some ''other'', db_Options = None\<rparr>]\<rparr>))\<rparr>
     ([], \<lparr>model_Id = StringValue ''p,i,db-1'', model_DatabaseId = StringValue ''db-1'',
           model_InstanceId = StringValue ''i'', model_ProjectId = StringValue ''p'',
           model_Name = StringValue ''mydb'', model_Owner = StringValue ''alice''\<rparr>)
     \<lparr>resp_Diagnostics = [],
      resp_State = Some \<lparr>model_Id = StringValue ''p,i,db-1'', model_DatabaseId = StringValue ''db-1'',
           model_InstanceId = StringValue ''i'', model_ProjectId = StringValue ''p'',
           model_Name = StringValue ''mydb'', model_Owner = StringValue ''alice''\<rparr>\<rparr>
   = (\<lparr>resp_Diagnostics =
         [ErrorDiagnostic ''Error reading database'' ''Calling API: database not found''],
       resp_State = Some \<lparr>model_Id = StringValue ''p,i,db-1'', model_DatabaseId = StringValue ''db-1'',
           model_InstanceId = StringValue ''i'', model_ProjectId = StringValue ''p'',
           model_Name = StringValue ''mydb'', model_Owner = StringValue ''alice''\<rparr>\<rparr>,
      [CallListDatabases ''p'' ''i''])"
  by (simp add: Read_def getDatabase_def HasError_def LogAndAddError_def AddError_def Let_def)

section \<open>ImportState\<close>

lemma import_guard:
  "(length xs \<noteq> 3 \<or> xs ! 0 = '''' \<or> xs ! 1 = '''' \<or> xs ! 2 = '''')
     = (\<not> (length xs = 3 \<and> (\<forall>part \<in> set xs. part \<noteq> '''')))"
proof (cases "length xs = 3")
  case True
  then obtain a b c where "xs = [a, b, c]"
    by (auto simp: numeral_3_eq_3 length_Suc_conv)
  then show ?thesis by auto
next
  case False
  then show ?thesis by simp
qed

lemma ImportState_rejects:
  assumes "\<not> (length (strings_Split raw Separator) = 3
              \<and> (\<forall>part \<in> set (strings_Split raw Separator). part \<noteq> ''''))"
  shows "ImportState quote raw resp =
           (resp\<lparr>resp_Diagnostics := LogAndAddError (resp_Diagnostics resp)
                ''Error importing database''
                (''Expected import identifier with format [project_id],[instance_id],[database_id], got ''
                 @ quote raw)\<rparr>, [])"
  using assms unfolding ImportState_def Let_def import_guard by simp

lemma ImportState_accepts:
  assumes "strings_Split raw Separator = [p, i, d]" and "p \<noteq> ''''" and "i \<noteq> ''''" and "d \<noteq> ''''"
  shows "ImportState quote raw resp =
           (resp\<lparr>resp_Diagnostics := LogAndAddWarning (resp_Diagnostics resp)
                ''Postgresflex database imported with empty password''
                ''The database password is not imported as it is only available upon creation of a new database. The password field will be empty.'',
              resp_State := Some ((case resp_State resp of None \<Rightarrow> null_Model | Some m \<Rightarrow> m)
                  \<lparr>model_ProjectId := StringValue p, model_InstanceId := StringValue i,
                   model_DatabaseId := StringValue d\<rparr>)\<rparr>, [])"
  using assms by (simp add: ImportState_def Let_def SetAttribute_def)

text \<open>
  C4. For non-empty \<open>p\<close>, \<open>i\<close>, \<open>d\<close> without the separator, \<^verbatim>\<open>ImportState\<close> on
  their join adds a warning and no error, and sets \<^verbatim>\<open>project_id\<close>, \<^verbatim>\<open>instance_id\<close>
  and \<^verbatim>\<open>database_id\<close> of the state to \<open>p\<close>, \<open>i\<close>, \<open>d\<close>. On an identifier that does
  not split into exactly three non-empty parts it adds the error
  \<^verbatim>\<open>Error importing database\<close> and leaves the state as it was. The identifiers that
  split into three non-empty parts are exactly the joins of three such strings.
\<close>

theorem ImportState_roundtrip:
  "(p \<noteq> '''' \<and> i \<noteq> '''' \<and> d \<noteq> '''' \<and> \<not> strings_Contains p Separator
      \<and> \<not> strings_Contains i Separator \<and> \<not> strings_Contains d Separator \<longrightarrow>
      ImportState quote (strings_Join [p, i, d] Separator) resp =
        (resp\<lparr>resp_Diagnostics := LogAndAddWarning (resp_Diagnostics resp)
             ''Postgresflex database imported with empty password''
             ''The database password is not imported as it is only available upon creation of a new database. The password field will be empty.'',
           resp_State := Some ((case resp_State resp of None \<Rightarrow> null_Model | Some m \<Rightarrow> m)
               \<lparr>model_ProjectId := StringValue p, model_InstanceId := StringValue i,
                model_DatabaseId := StringValue d\<rparr>)\<rparr>, [])
      \<and> HasError (resp_Diagnostics (fst (ImportState quote (strings_Join [p, i, d] Separator) resp)))
          = HasError (resp_Diagnostics resp))
   \<and> (\<not> (length (strings_Split raw Separator) = 3
           \<and> (\<forall>part \<in> set (strings_Split raw Separator). part \<noteq> '''')) \<longrightarrow>
        HasError (resp_Diagnostics (fst (ImportState quote raw resp)))
        \<and> ErrorDiagnostic ''Error importing database''
             (''Expected import identifier with format [project_id],[instance_id],[database_id], got ''
              @ quote raw) \<in> set (resp_Diagnostics (fst (ImportState quote raw resp)))
        \<and> resp_State (fst (ImportState quote raw resp)) = resp_State resp
        \<and> snd (ImportState quote raw resp) = [])
   \<and> ((length (strings_Split raw Separator) = 3
           \<and> (\<forall>part \<in> set (strings_Split raw Separator). part \<noteq> ''''))
        = (\<exists>a b c. a \<noteq> '''' \<and> b \<noteq> '''' \<and> c \<noteq> '''' \<and> \<not> strings_Contains a Separator
             \<and> \<not> strings_Contains b Separator \<and> \<not> strings_Contains c Separator
             \<and> raw = strings_Join [a, b, c] Separator))"
proof (intro conjI impI)
  assume h: "p \<noteq> '''' \<and> i \<noteq> '''' \<and> d \<noteq> '''' \<and> \<not> strings_Contains p Separator
      \<and> \<not> strings_Contains i Separator \<and> \<not> strings_Contains d Separator"
  then have s: "strings_Split (strings_Join [p, i, d] Separator) Separator = [p, i, d]"
    using Split_Join3 [of p i d] by blast
  show e: "ImportState quote (strings_Join [p, i, d] Separator) resp =
        (resp\<lparr>resp_Diagnostics := LogAndAddWarning (resp_Diagnostics resp)
             ''Postgresflex database imported with empty password''
             ''The database password is not imported as it is only available upon creation of a new database. The password field will be empty.'',
           resp_State := Some ((case resp_State resp of None \<Rightarrow> null_Model | Some m \<Rightarrow> m)
               \<lparr>model_ProjectId := StringValue p, model_InstanceId := StringValue i,
                model_DatabaseId := StringValue d\<rparr>)\<rparr>, [])"
    using s h by (intro ImportState_accepts) simp_all
  show "HasError (resp_Diagnostics (fst (ImportState quote (strings_Join [p, i, d] Separator) resp)))
          = HasError (resp_Diagnostics resp)"
    unfolding e by (simp add: HasError_LogAndAddWarning)
next
  assume h: "\<not> (length (strings_Split raw Separator) = 3
           \<and> (\<forall>part \<in> set (strings_Split raw Separator). part \<noteq> ''''))"
  note e = ImportState_rejects [OF h, of quote resp]
  show "HasError (resp_Diagnostics (fst (ImportState quote raw resp)))"
    unfolding e by (simp add: HasError_LogAndAddError)
  show "ErrorDiagnostic ''Error importing database''
             (''Expected import identifier with format [project_id],[instance_id],[database_id], got ''
              @ quote raw) \<in> set (resp_Diagnostics (fst (ImportState quote raw resp)))"
    unfolding e by (simp add: LogAndAddError_mem)
  show "resp_State (fst (ImportState quote raw resp)) = resp_State resp"
    unfolding e by simp
  show "snd (ImportState quote raw resp) = []"
    unfolding e by simp
next
  show "(length (strings_Split raw Separator) = 3
           \<and> (\<forall>part \<in> set (strings_Split raw Separator). part \<noteq> ''''))
        = (\<exists>a b c. a \<noteq> '''' \<and> b \<noteq> '''' \<and> c \<noteq> '''' \<and> \<not> strings_Contains a Separator
             \<and> \<not> strings_Contains b Separator \<and> \<not> strings_Contains c Separator
             \<and> raw = strings_Join [a, b, c] Separator)"
  proof
    assume l: "length (strings_Split raw Separator) = 3
           \<and> (\<forall>part \<in> set (strings_Split raw Separator). part \<noteq> '''')"
    then obtain a b c where abc: "strings_Split raw Separator = [a, b, c]"
      by (auto simp: numeral_3_eq_3 length_Suc_conv)
    with l have "a \<noteq> '''' \<and> b \<noteq> '''' \<and> c \<noteq> ''''" by simp
    with Split3_Join [OF abc]
    show "\<exists>a b c. a \<noteq> '''' \<and> b \<noteq> '''' \<and> c \<noteq> '''' \<and> \<not> strings_Contains a Separator
             \<and> \<not> strings_Contains b Separator \<and> \<not> strings_Contains c Separator
             \<and> raw = strings_Join [a, b, c] Separator"
      by blast
  next
    assume "\<exists>a b c. a \<noteq> '''' \<and> b \<noteq> '''' \<and> c \<noteq> '''' \<and> \<not> strings_Contains a Separator
             \<and> \<not> strings_Contains b Separator \<and> \<not> strings_Contains c Separator
             \<and> raw = strings_Join [a, b, c] Separator"
    then obtain a b c where abc: "a \<noteq> ''''" "b \<noteq> ''''" "c \<noteq> ''''"
        "\<not> strings_Contains a Separator" "\<not> strings_Contains b Separator"
        "\<not> strings_Contains c Separator" "raw = strings_Join [a, b, c] Separator"
      by blast
    have "strings_Split raw Separator = [a, b, c]"
      unfolding abc(7) using abc(4-6) by (rule Split_Join3)
    then show "length (strings_Split raw Separator) = 3
           \<and> (\<forall>part \<in> set (strings_Split raw Separator). part \<noteq> '''')"
      using abc(1-3) by simp
  qed
qed

theorem ImportState_roundtrip_witness:
  "ImportState (\<lambda>s. s) ''p1,i1,db-1'' \<lparr>resp_Diagnostics = [], resp_State = None\<rparr> =
     (\<lparr>resp_Diagnostics = [WarningDiagnostic
          ''Postgresflex database imported with empty password''
          ''The database password is not imported as it is only available upon creation of a new database. The password field will be empty.''],
       resp_State = Some \<lparr>model_Id = StringNull, model_DatabaseId = StringValue ''db-1'',
          model_InstanceId = StringValue ''i1'', model_ProjectId = StringValue ''p1'',
          model_Name = StringNull, model_Owner = StringNull\<rparr>\<rparr>, [])
   \<and> HasError (resp_Diagnostics (fst
        (ImportState (\<lambda>s. s) ''p1,,db-1'' \<lparr>resp_Diagnostics = [], resp_State = None\<rparr>)))
   \<and> resp_State (fst
        (ImportState (\<lambda>s. s) ''p1,,db-1'' \<lparr>resp_Diagnostics = [], resp_State = None\<rparr>)) = None"
proof -
  have j: "strings_Join [''p1'', ''i1'', ''db-1''] Separator = ''p1,i1,db-1''"
    by (simp add: Separator_def)
  have c: "''p1'' \<noteq> '''' \<and> ''i1'' \<noteq> '''' \<and> ''db-1'' \<noteq> '''' \<and> \<not> strings_Contains ''p1'' Separator
      \<and> \<not> strings_Contains ''i1'' Separator \<and> \<not> strings_Contains ''db-1'' Separator"
    by (simp add: Separator_def)
  have n: "\<not> (length (strings_Split ''p1,,db-1'' Separator) = 3
      \<and> (\<forall>part \<in> set (strings_Split ''p1,,db-1'' Separator). part \<noteq> ''''))"
    by (simp add: Separator_def strings_Split_def)
  note r = ImportState_roundtrip [of "''p1''" "''i1''" "''db-1''" "\<lambda>s. s"
      "\<lparr>resp_Diagnostics = [], resp_State = None\<rparr>" "''p1,,db-1''"]
  note a = mp [OF conjunct1 [OF r] c, unfolded j]
  note b = mp [OF conjunct1 [OF conjunct2 [OF r]] n]
  from a b show ?thesis
    by (simp add: null_Model_def LogAndAddWarning_def AddWarning_def)
qed

end
